theory Spec2Isabelle
  imports Complex_Main "HOL-Library.Word" "HOL-Library.Log_Nat"
begin

unbundle bit_operations_syntax

section \<open>Python values used by \<open>simple-test.py\<close>\<close>

text \<open>
  The exceptions the script can meet. \<open>ValueError\<close> is the one the encoder raises itself;
  \<open>OverflowError\<close> is an integer too large to become a float;
  \<open>AttributeError\<close> is a method looked up on an object that has none of that name;
  \<open>KeyError\<close> and \<open>TypeError\<close> come from subscripting and formatting the decoded JSON;
  \<open>RequestException\<close> is the base class of everything the \<open>requests\<close> library raises;
  \<open>CaptureError\<close> stands for whatever the recording library raises.
\<close>

datatype py_error =
    ValueError string
  | OverflowError string
  | KeyError string
  | TypeError string
  | RequestException string
  | CaptureError string
  | AttributeError string

type_synonym byte = "8 word"

text \<open>The single quote, for messages that quote a name.\<close>

definition sq :: string where
  "sq = [CHR 0x27]"

subsection \<open>Decimal rendering of integers (\<open>str(int)\<close>)\<close>

definition digit_char :: "nat \<Rightarrow> char" where
  "digit_char d = ''0123456789'' ! d"

function show_nat :: "nat \<Rightarrow> string" where
  "show_nat n = (if n < 10 then [digit_char n] else show_nat (n div 10) @ [digit_char (n mod 10)])"
  by pat_completeness auto
termination
  by (relation "measure id") auto

declare show_nat.simps [simp del]

definition show_int :: "int \<Rightarrow> string" where
  "show_int i = (if i < 0 then ''-'' @ show_nat (nat (- i)) else show_nat (nat i))"

section \<open>Floating point: the finite values, as rationals\<close>

text \<open>
  A finite IEEE 754 value is a rational number, and the result of an operation is the
  exact result rounded to the nearest representable value, ties to the even significand.
  \<open>fp_round p emin\<close> is that rounding for a format with \<open>p\<close> significand bits whose
  smallest exponent of the last place is \<open>emin\<close>: binary32 is \<open>fp_round 24 (-149)\<close>.
  Infinities and NaN are not values of the model: the recorder delivers finite samples.
  A product too large for binary32 stays a (large) rational here; it is converted to an
  integer like every other value outside the integer range, which is also what the
  hardware does with an infinity.
\<close>

definition pow2 :: "int \<Rightarrow> rat" where
  "pow2 e = (if 0 \<le> e then 2 ^ nat e else 1 / 2 ^ nat (- e))"

definition ilog2 :: "rat \<Rightarrow> int" where
  "ilog2 q = (let a = \<bar>q\<bar> in
     if 1 \<le> a then bitlen \<lfloor>a\<rfloor> - 1 else - bitlen (\<lceil>1 / a\<rceil> - 1))"

definition round_half_even :: "rat \<Rightarrow> int" where
  "round_half_even s = (let f = \<lfloor>s\<rfloor>; r = s - of_int f in
     if r < 1 / 2 then f
     else if 1 / 2 < r then f + 1
     else if even f then f else f + 1)"

definition fp_round :: "nat \<Rightarrow> int \<Rightarrow> rat \<Rightarrow> rat" where
  "fp_round p emin q = (if q = 0 then 0 else
     let e = max (ilog2 q - (int p - 1)) emin
     in of_int (round_half_even (q / pow2 e)) * pow2 e)"

definition f32 :: "rat \<Rightarrow> rat" where
  "f32 q = fp_round 24 (- 149) q"

text \<open>
  \<open>audio_data * k\<close> for a \<open>float32\<close> array and a Python integer \<open>k\<close>: NumPy converts the
  integer to \<open>float32\<close> and multiplies in \<open>float32\<close>.
\<close>

definition f32_mul_int :: "rat \<Rightarrow> int \<Rightarrow> rat" where
  "f32_mul_int x k = f32 (x * f32 (of_int k))"

text \<open>Conversion to an integer drops the fraction (rounds towards zero).\<close>

definition trunc :: "rat \<Rightarrow> int" where
  "trunc q = (if 0 \<le> q then \<lfloor>q\<rfloor> else \<lceil>q\<rceil>)"

text \<open>
  \<open>.astype(np.int32)\<close> and \<open>.astype(np.int16)\<close> are C conversions. Inside the range of
  \<open>int32\<close> the result is the truncated value. Outside it C leaves the result open; the
  model takes what the x86-64 conversion instruction returns there, the value
  \<open>0x80000000\<close>. The conversion to \<open>int16\<close> keeps the low 16 bits of that 32-bit result.
  For samples in \<open>[-1, 1]\<close> and the 16 and 24 bit scales nothing is out of range.
\<close>

definition astype_int32 :: "rat \<Rightarrow> 32 word" where
  "astype_int32 q = (let t = trunc q in
     if - (2 ^ 31) \<le> t \<and> t < 2 ^ 31 then word_of_int t else 0x80000000)"

definition astype_int16 :: "rat \<Rightarrow> 16 word" where
  "astype_int16 q = ucast (astype_int32 q)"

section \<open>Bytes\<close>

text \<open>\<open>le_bytes n v\<close>: the \<open>n\<close> low-order bytes of \<open>v\<close>, least significant first.\<close>

fun le_bytes :: "nat \<Rightarrow> nat \<Rightarrow> byte list" where
  "le_bytes 0 v = []"
| "le_bytes (Suc n) v = word_of_nat (v mod 256) # le_bytes n (v div 256)"

text \<open>\<open>ndarray.tobytes()\<close> of an integer array: every element in native (little-endian) order.\<close>

definition tobytes16 :: "16 word list \<Rightarrow> byte list" where
  "tobytes16 ws = concat (map (\<lambda>w. le_bytes 2 (unat w)) ws)"

definition tobytes32 :: "32 word list \<Rightarrow> byte list" where
  "tobytes32 ws = concat (map (\<lambda>w. le_bytes 4 (unat w)) ws)"

section \<open>The PCM encoder: \<open>convert_to_pcm_bytes\<close>\<close>

text \<open>
  An \<open>AudioBuffer\<close> is a two-dimensional array, frames by channels; it is a list of
  frames here, each frame the list of its channels' samples. A NumPy array is
  rectangular: \<open>has_shape buf F C\<close> says so. \<open>flat\<close> is the row-major walk that
  \<open>.flat\<close> and \<open>.tobytes()\<close> take.
\<close>

type_synonym audio_buffer = "rat list list"

definition has_shape :: "audio_buffer \<Rightarrow> nat \<Rightarrow> nat \<Rightarrow> bool" where
  "has_shape buf F C \<longleftrightarrow> length buf = F \<and> list_all (\<lambda>frame. length frame = C) buf"

definition flat :: "'a list list \<Rightarrow> 'a list" where
  "flat buf = concat buf"

text \<open>
  The loop of the 24-bit branch, with the \<open>bytearray\<close> \<open>bytes_data\<close> as the accumulator.
  What \<open>.flat\<close> yields are NumPy scalars of type \<open>int32\<close>, and \<open>sample & 0xFFFFFF\<close> is one
  again. A NumPy integer scalar is not a Python \<open>int\<close>: it has \<open>tobytes\<close> but no method
  \<open>to_bytes\<close>, so \<open>sample_24bit.to_bytes(3, "little", signed=True)\<close> raises
  \<open>AttributeError\<close> at the attribute, whatever the value and the arguments. The exception
  leaves the loop and the function.
\<close>

definition int32_to_bytes :: "32 word \<Rightarrow> nat \<Rightarrow> bool \<Rightarrow> py_error + byte list" where
  "int32_to_bytes sample_24bit len is_signed =
     Inl (AttributeError (sq @ ''numpy.int32'' @ sq @ '' object has no attribute ''
                          @ sq @ ''to_bytes'' @ sq))"

fun pcm24_loop :: "32 word list \<Rightarrow> byte list \<Rightarrow> py_error + byte list" where
  "pcm24_loop [] bytes_data = Inr bytes_data"
| "pcm24_loop (sample # rest) bytes_data =
     (let sample_24bit = sample AND 0xFFFFFF in
      case int32_to_bytes sample_24bit 3 True of
        Inl e \<Rightarrow> Inl e
      | Inr bs \<Rightarrow> pcm24_loop rest (bytes_data @ bs))"

definition convert_to_pcm_bytes :: "audio_buffer \<Rightarrow> int \<Rightarrow> py_error + byte list" where
  "convert_to_pcm_bytes audio_data bit_depth =
     (if bit_depth = 16 then
        Inr (tobytes16 (map (\<lambda>x. astype_int16 (f32_mul_int x 32767)) (flat audio_data)))
      else if bit_depth = 24 then
        pcm24_loop (map (\<lambda>x. astype_int32 (f32_mul_int x 8388607)) (flat audio_data)) []
      else if bit_depth = 32 then
        Inr (tobytes32 (map (\<lambda>x. astype_int32 (f32_mul_int x 2147483647)) (flat audio_data)))
      else Inl (ValueError (''Unsupported bit depth: '' @ show_int bit_depth)))"


section \<open>Decoded JSON and Python's operations on it\<close>

text \<open>
  What \<open>response.json()\<close> returns: Python's \<open>None\<close>, booleans, integers, floats (finite
  doubles, as rationals), strings, lists and dictionaries. A dictionary is the list of
  its entries in order; a lookup takes the first entry with the key.
\<close>

datatype pynum = PyInt int | PyFloat rat

datatype json =
    JNull
  | JBool bool
  | JNum pynum
  | JStr string
  | JArr "json list"
  | JObj "(string \<times> json) list"

subsection \<open>Doubles and how Python prints them\<close>

text \<open>
  \<open>f64\<close> rounds to the nearest double. \<open>format_2f\<close> is \<open>'%.2f'\<close>: the exact value rounded
  to two decimals, ties to even. \<open>float_repr\<close> is \<open>repr\<close> (and \<open>str\<close>) of a float: the
  shortest decimal that rounds back to the same double, in positional notation when the
  decimal point falls within 16 digits and not more than 4 places left of the first digit,
  otherwise with an exponent.
\<close>

definition f64 :: "rat \<Rightarrow> rat" where
  "f64 q = fp_round 53 (- 1074) q"

definition pow10 :: "int \<Rightarrow> rat" where
  "pow10 e = (if 0 \<le> e then 10 ^ nat e else 1 / 10 ^ nat (- e))"

definition ilog10 :: "rat \<Rightarrow> int" where
  "ilog10 a = (if 1 \<le> a then int (floorlog 10 (nat \<lfloor>a\<rfloor>)) - 1
               else - int (floorlog 10 (nat (\<lceil>1 / a\<rceil> - 1))))"

definition show_2digits :: "nat \<Rightarrow> string" where
  "show_2digits n = [digit_char (n div 10), digit_char (n mod 10)]"

definition format_2f :: "rat \<Rightarrow> string" where
  "format_2f v = (let n = nat (round_half_even (\<bar>v\<bar> * 100)) in
     (if v < 0 then ''-'' else '''') @ show_nat (n div 100) @ ''.'' @ show_2digits (n mod 100))"

definition decimal_candidates :: "rat \<Rightarrow> nat \<Rightarrow> (int \<times> int) list" where
  "decimal_candidates a n = (let e = ilog10 a + 1 - int n; lo = \<lfloor>a / pow10 e\<rfloor>
     in [(lo, e), (lo + 1, e)])"

definition decimal_value :: "int \<times> int \<Rightarrow> rat" where
  "decimal_value d = of_int (fst d) * pow10 (snd d)"

definition nearest_decimal :: "rat \<Rightarrow> (int \<times> int) list \<Rightarrow> int \<times> int" where
  "nearest_decimal a ds = (case ds of
       [d] \<Rightarrow> d
     | [lo, hi] \<Rightarrow>
         (let dl = a - decimal_value lo; dh = decimal_value hi - a in
          if dl < dh then lo else if dh < dl then hi else if even (fst lo) then lo else hi)
     | _ \<Rightarrow> (0, 0))"

definition shortest_decimal :: "rat \<Rightarrow> int \<times> int" where
  "shortest_decimal a =
     (case List.find (\<lambda>n. \<exists>d \<in> set (decimal_candidates a n). f64 (decimal_value d) = a) [1 ..< 18] of
        Some n \<Rightarrow> nearest_decimal a (filter (\<lambda>d. f64 (decimal_value d) = a) (decimal_candidates a n))
      | None \<Rightarrow> nearest_decimal a (decimal_candidates a 17))"

fun strip_zeros :: "string \<Rightarrow> string" where
  "strip_zeros s = rev (dropWhile (\<lambda>c. c = CHR ''0'') (rev s))"

definition float_repr_pos :: "rat \<Rightarrow> string" where
  "float_repr_pos a = (let d = shortest_decimal a;
       all_digits = show_nat (nat (fst d));
       decpt = int (length all_digits) + snd d;
       digits = strip_zeros all_digits;
       n = length digits
     in if decpt \<le> - 4 \<or> 16 < decpt then
          take 1 digits @ (if 1 < n then ''.'' @ drop 1 digits else '''') @ ''e''
            @ (if decpt - 1 < 0 then ''-'' else ''+'')
            @ (if \<bar>decpt - 1\<bar> < 10 then ''0'' else '''') @ show_nat (nat \<bar>decpt - 1\<bar>)
        else if decpt \<le> 0 then ''0.'' @ replicate (nat (- decpt)) CHR ''0'' @ digits
        else if int n \<le> decpt then digits @ replicate (nat (decpt - int n)) CHR ''0'' @ ''.0''
        else take (nat decpt) digits @ ''.'' @ drop (nat decpt) digits)"

definition float_repr :: "rat \<Rightarrow> string" where
  "float_repr v = (if v = 0 then ''0.0'' else if v < 0 then ''-'' @ float_repr_pos (- v)
                   else float_repr_pos v)"


subsection \<open>Truth value, subscripting, iteration\<close>

fun type_name :: "json \<Rightarrow> string" where
  "type_name JNull = ''NoneType''"
| "type_name (JBool b) = ''bool''"
| "type_name (JNum (PyInt n)) = ''int''"
| "type_name (JNum (PyFloat q)) = ''float''"
| "type_name (JStr s) = ''str''"
| "type_name (JArr xs) = ''list''"
| "type_name (JObj kvs) = ''dict''"

text \<open>\<open>if v:\<close>\<close>

fun truthy :: "json \<Rightarrow> bool" where
  "truthy JNull = False"
| "truthy (JBool b) = b"
| "truthy (JNum (PyInt n)) = (n \<noteq> 0)"
| "truthy (JNum (PyFloat q)) = (q \<noteq> 0)"
| "truthy (JStr s) = (s \<noteq> [])"
| "truthy (JArr xs) = (xs \<noteq> [])"
| "truthy (JObj kvs) = (kvs \<noteq> [])"

text \<open>\<open>v[key]\<close> with a string key.\<close>

fun getitem :: "json \<Rightarrow> string \<Rightarrow> py_error + json" where
  "getitem (JObj kvs) key = (case map_of kvs key of None \<Rightarrow> Inl (KeyError key) | Some v \<Rightarrow> Inr v)"
| "getitem (JArr xs) key = Inl (TypeError ''list indices must be integers or slices, not str'')"
| "getitem (JStr s) key = Inl (TypeError (''string indices must be integers, not '' @ sq @ ''str'' @ sq))"
| "getitem v key = Inl (TypeError (sq @ type_name v @ sq @ '' object is not subscriptable''))"

text \<open>\<open>v.get(key)\<close>: only a dictionary has the method.\<close>

fun dict_get :: "json \<Rightarrow> string \<Rightarrow> py_error + json" where
  "dict_get (JObj kvs) key = Inr (case map_of kvs key of None \<Rightarrow> JNull | Some v \<Rightarrow> v)"
| "dict_get v key =
     Inl (AttributeError (sq @ type_name v @ sq @ '' object has no attribute '' @ sq @ ''get'' @ sq))"

text \<open>
  What \<open>enumerate(v)\<close> walks over: the elements of a list, the characters of a string,
  the keys of a dictionary; anything else is not iterable.
\<close>

fun py_iter :: "json \<Rightarrow> py_error + json list" where
  "py_iter (JArr xs) = Inr xs"
| "py_iter (JStr s) = Inr (map (\<lambda>c. JStr [c]) s)"
| "py_iter (JObj kvs) = Inr (map (\<lambda>kv. JStr (fst kv)) kvs)"
| "py_iter v = Inl (TypeError (sq @ type_name v @ sq @ '' object is not iterable''))"

subsection \<open>\<open>str\<close>, \<open>repr\<close> and the format \<open>.2f\<close>\<close>

definition num_str :: "pynum \<Rightarrow> string" where
  "num_str n = (case n of PyInt i \<Rightarrow> show_int i | PyFloat q \<Rightarrow> float_repr q)"

definition hex_digit :: "nat \<Rightarrow> char" where
  "hex_digit d = ''0123456789abcdef'' ! d"

text \<open>
  \<open>repr\<close> of a string. Strings are byte strings here (UTF-8); the bytes of a character
  beyond ASCII are passed through, which is what \<open>repr\<close> does with a printable one.
\<close>

definition repr_char :: "char \<Rightarrow> char \<Rightarrow> string" where
  "repr_char quote c =
     (if c = CHR 0x5C then [CHR 0x5C, CHR 0x5C]
      else if c = quote then [CHR 0x5C, quote]
      else if c = CHR 0x0A then [CHR 0x5C, CHR ''n'']
      else if c = CHR 0x0D then [CHR 0x5C, CHR ''r'']
      else if c = CHR 0x09 then [CHR 0x5C, CHR ''t'']
      else if of_char c < (32::nat) \<or> of_char c = (127::nat)
        then [CHR 0x5C, CHR ''x'', hex_digit (of_char c div 16), hex_digit (of_char c mod 16)]
      else [c])"

definition repr_str :: "string \<Rightarrow> string" where
  "repr_str s = (let quote = (if CHR 0x27 \<in> set s \<and> CHR 0x22 \<notin> set s then CHR 0x22 else CHR 0x27)
     in [quote] @ concat (map (repr_char quote) s) @ [quote])"

fun join_comma :: "string list \<Rightarrow> string" where
  "join_comma [] = []"
| "join_comma [x] = x"
| "join_comma (x # y # ys) = x @ '', '' @ join_comma (y # ys)"

fun py_repr :: "json \<Rightarrow> string" where
  "py_repr JNull = ''None''"
| "py_repr (JBool b) = (if b then ''True'' else ''False'')"
| "py_repr (JNum n) = num_str n"
| "py_repr (JStr s) = repr_str s"
| "py_repr (JArr xs) = ''['' @ join_comma (map py_repr xs) @ '']''"
| "py_repr (JObj kvs) =
     ''{'' @ join_comma (map (\<lambda>kv. repr_str (fst kv) @ '': '' @ py_repr (snd kv)) kvs) @ ''}''"

text \<open>\<open>str(v)\<close>, which is what \<open>{v}\<close> in an f-string prints.\<close>

definition py_str :: "json \<Rightarrow> string" where
  "py_str v = (case v of JStr s \<Rightarrow> s | _ \<Rightarrow> py_repr v)"

text \<open>
  \<open>{v:.2f}\<close> in an f-string: numbers and booleans are formatted as floats (an integer
  is converted first, which fails beyond the range of doubles), a string rejects the
  format code, every other object rejects any format string.
\<close>

fun format_value_2f :: "json \<Rightarrow> py_error + string" where
  "format_value_2f (JNum (PyFloat q)) = Inr (format_2f q)"
| "format_value_2f (JNum (PyInt n)) =
     (if \<bar>n\<bar> < 2 ^ 1024 - 2 ^ 970 then Inr (format_2f (f64 (of_int n)))
      else Inl (OverflowError ''int too large to convert to float''))"
| "format_value_2f (JBool b) = Inr (format_2f (if b then 1 else 0))"
| "format_value_2f (JStr s) =
     Inl (ValueError (''Unknown format code '' @ sq @ ''f'' @ sq @ '' for object of type '' @ sq @ ''str'' @ sq))"
| "format_value_2f v =
     Inl (TypeError (''unsupported format string passed to '' @ type_name v @ ''.__format__''))"

section \<open>The outside world\<close>

text \<open>
  One run of the script meets three collaborators: the audio library, and the server
  behind two HTTP calls. \<open>world\<close> fixes what they answer. An HTTP call either gets a
  response or raises a \<open>requests.RequestException\<close> (connection refused, timeout, ...),
  of which \<open>Failed\<close> carries the text. \<open>json_body\<close> is what \<open>response.json()\<close> gives: the
  decoded body, or the exception it raises. For a body that is not JSON that is the
  \<open>JSONDecodeError\<close> of \<open>requests\<close>, a \<open>RequestException\<close>; but the decoder's other
  exceptions pass through \<open>requests\<close> as they are, such as the \<open>ValueError\<close> for an integer
  literal of more than 4300 digits.
\<close>

record response =
  status_code :: int
  json_body :: "py_error + json"
  body_text :: string

datatype http_outcome = Responded response | Failed string

record post_request =
  url :: string
  files :: "(string \<times> string \<times> byte list \<times> string) list"
  data :: "(string \<times> string) list"
  timeout :: nat

record world =
  query_devices :: string
  http_get :: "string \<Rightarrow> nat \<Rightarrow> http_outcome"
  http_post :: "post_request \<Rightarrow> http_outcome"
  sd_rec :: "int \<Rightarrow> int \<Rightarrow> int \<Rightarrow> string + audio_buffer"

text \<open>What a run does, in order: lines printed and calls made.\<close>

datatype event =
    Print string
  | QueryDevices
  | HttpGet string nat
  | HttpPost post_request
  | SdRec int int int

section \<open>\<open>record_audio\<close>\<close>

text \<open>\<open>int(duration * sample_rate)\<close>, the number of frames asked of the audio library.\<close>

definition frame_count :: "pynum \<Rightarrow> int \<Rightarrow> int" where
  "frame_count duration sample_rate = (case duration of
       PyInt d \<Rightarrow> d * sample_rate
     | PyFloat d \<Rightarrow> trunc (f64 (d * f64 (of_int sample_rate))))"

definition record_audio :: "world \<Rightarrow> pynum \<Rightarrow> int \<Rightarrow> int \<Rightarrow> event list \<times> (py_error + audio_buffer)" where
  "record_audio w duration sample_rate channels =
     (let ev = [Print (''Recording for '' @ num_str duration @ '' seconds...''),
                Print ''Speak now!'',
                SdRec (frame_count duration sample_rate) sample_rate channels]
      in case sd_rec w (frame_count duration sample_rate) sample_rate channels of
           Inl msg \<Rightarrow> (ev, Inl (CaptureError msg))
         | Inr audio_data \<Rightarrow> (ev @ [Print ''Recording complete!''], Inr audio_data))"

section \<open>The transcription client: \<open>transcribe_audio\<close>\<close>

definition upload_request :: "byte list \<Rightarrow> int \<Rightarrow> int \<Rightarrow> int \<Rightarrow> string \<Rightarrow> post_request" where
  "upload_request audio_bytes sample_rate channels bit_depth api_url =
     \<lparr>url = api_url @ ''/transcribe/upload'',
      files = [(''audio'', ''audio.pcm'', audio_bytes, ''application/octet-stream'')],
      data = [(''sample_rate'', show_int sample_rate),
              (''channels'', show_int channels),
              (''bit_depth'', show_int bit_depth)],
      timeout = 30\<rparr>"

text \<open>The body of the \<open>try\<close>: what it prints and does, and its return value or exception.\<close>

definition transcribe_try ::
  "world \<Rightarrow> byte list \<Rightarrow> int \<Rightarrow> int \<Rightarrow> int \<Rightarrow> string \<Rightarrow> event list \<times> (py_error + json)" where
  "transcribe_try w audio_bytes sample_rate channels bit_depth api_url =
     (let req = upload_request audio_bytes sample_rate channels bit_depth api_url;
          ev = [Print ''Sending audio to transcription API via multipart upload...'', HttpPost req]
      in case http_post w req of
           Failed msg \<Rightarrow> (ev, Inl (RequestException msg))
         | Responded r \<Rightarrow>
             if status_code r = 200 then
               (case json_body r of
                  Inl e \<Rightarrow> (ev, Inl e)
                | Inr j \<Rightarrow> (ev, Inr j))
             else
               (ev @ [Print (''API error: '' @ show_int (status_code r)),
                      (case json_body r of
                         Inr error_info \<Rightarrow> Print (''Error details: '' @ py_str error_info)
                       | Inl e \<Rightarrow> Print (''Response: '' @ body_text r))],
                Inr JNull))"

text \<open>
  The whole function: \<open>except requests.RequestException\<close> catches that class and no
  other; the bare \<open>except\<close> around the second \<open>response.json()\<close> catches everything.
  Python's \<open>None\<close> is \<open>JNull\<close>.
\<close>

definition transcribe_audio ::
  "world \<Rightarrow> byte list \<Rightarrow> int \<Rightarrow> int \<Rightarrow> int \<Rightarrow> string \<Rightarrow> event list \<times> (py_error + json)" where
  "transcribe_audio w audio_bytes sample_rate channels bit_depth api_url =
     (case transcribe_try w audio_bytes sample_rate channels bit_depth api_url of
        (ev, Inl (RequestException msg)) \<Rightarrow> (ev @ [Print (''Request failed: '' @ msg)], Inr JNull)
      | (ev, Inl e) \<Rightarrow> (ev, Inl e)
      | (ev, Inr j) \<Rightarrow> (ev, Inr j))"

section \<open>The command line driver: \<open>main\<close>\<close>

text \<open>
  \<open>args\<close> is what \<open>parser.parse_args()\<close> returns. \<open>duration\<close> is a float when given on
  the command line and the integer default 5 otherwise.
\<close>

record args =
  arg_duration :: pynum
  arg_sample_rate :: int
  arg_channels :: int
  arg_bit_depth :: int
  arg_api_url :: string
  arg_list_devices :: bool

text \<open>
  How the process ends: \<open>main\<close> returns (exit code 0), \<open>sys.exit(n)\<close>, or an exception
  nobody catches (traceback, exit code 1).
\<close>

datatype outcome = Returned | SysExit int | Uncaught py_error

fun exit_code :: "outcome \<Rightarrow> int" where
  "exit_code Returned = 0"
| "exit_code (SysExit n) = n"
| "exit_code (Uncaught e) = 1"

text \<open>\<open>str(e)\<close> of a caught exception.\<close>

fun error_str :: "py_error \<Rightarrow> string" where
  "error_str (ValueError m) = m"
| "error_str (OverflowError m) = m"
| "error_str (KeyError k) = repr_str k"
| "error_str (TypeError m) = m"
| "error_str (RequestException m) = m"
| "error_str (CaptureError m) = m"
| "error_str (AttributeError m) = m"

text \<open>
  One line of the segment listing. The f-string evaluates and formats its fields from
  left to right, so the first failing field decides the exception.
\<close>

definition segment_line :: "nat \<Rightarrow> json \<Rightarrow> py_error + string" where
  "segment_line i segment =
     (case getitem segment ''start'' of Inl e \<Rightarrow> Inl e | Inr start \<Rightarrow>
      case getitem segment ''end'' of Inl e \<Rightarrow> Inl e | Inr end' \<Rightarrow>
      case getitem segment ''confidence'' of Inl e \<Rightarrow> Inl e | Inr confidence \<Rightarrow>
      case format_value_2f confidence of Inl e \<Rightarrow> Inl e | Inr conf \<Rightarrow>
      case getitem segment ''text'' of Inl e \<Rightarrow> Inl e | Inr txt \<Rightarrow>
        Inr (''  '' @ show_nat (i + 1) @ ''. ['' @ py_str start @ ''-'' @ py_str end'
             @ ''] (confidence: '' @ conf @ '') '' @ py_str txt))"

fun print_segments :: "nat \<Rightarrow> json list \<Rightarrow> event list \<times> outcome" where
  "print_segments i [] = ([], Returned)"
| "print_segments i (segment # rest) =
     (case segment_line i segment of
        Inl e \<Rightarrow> ([], Uncaught e)
      | Inr line \<Rightarrow> (case print_segments (i + 1) rest of (ev, out) \<Rightarrow> (Print line # ev, out)))"

definition print_result :: "json \<Rightarrow> event list \<times> outcome" where
  "print_result result =
     (let header = [Print (CHR 0x0A # replicate 50 CHR ''=''),
                    Print ''TRANSCRIPTION RESULT:'',
                    Print (replicate 50 CHR ''='')]
      in case getitem result ''text'' of
           Inl e \<Rightarrow> (header, Uncaught e)
         | Inr t \<Rightarrow>
             (let ev = header @ [Print (''Text: '' @ py_str t)]
              in case dict_get result ''segments'' of
                   Inl e \<Rightarrow> (ev, Uncaught e)
                 | Inr s \<Rightarrow>
                     if truthy s then
                       (case getitem result ''segments'' of
                          Inl e \<Rightarrow> (ev @ [Print (CHR 0x0A # ''Segments:'')], Uncaught e)
                        | Inr segments \<Rightarrow>
                            (case py_iter segments of
                               Inl e \<Rightarrow> (ev @ [Print (CHR 0x0A # ''Segments:'')], Uncaught e)
                             | Inr items \<Rightarrow>
                                 (case print_segments 0 items of
                                    (ev', out) \<Rightarrow> (ev @ [Print (CHR 0x0A # ''Segments:'')] @ ev', out))))
                     else (ev, Returned)))"

definition check_mark :: string where
  "check_mark = [CHR 0xE2, CHR 0x9C, CHR 0x93]"

definition warning_sign :: string where
  "warning_sign = [CHR 0xE2, CHR 0x9A, CHR 0xA0]"

definition ballot_x :: string where
  "ballot_x = [CHR 0xE2, CHR 0x9C, CHR 0x97]"

definition main :: "world \<Rightarrow> args \<Rightarrow> event list \<times> outcome" where
  "main w a =
     (if arg_list_devices a then
        ([Print ''Available audio devices:'', QueryDevices, Print (query_devices w)], Returned)
      else
        let test_url = arg_api_url a @ ''/'';
            ev1 = [Print (''Testing API connection to '' @ test_url @ ''...''), HttpGet test_url 5]
        in case http_get w test_url 5 of
             Failed msg \<Rightarrow>
               (ev1 @ [Print (ballot_x @ '' Cannot connect to API: '' @ msg),
                       Print ''Make sure the Rust server is running on the specified URL''],
                SysExit 1)
           | Responded r \<Rightarrow>
               (let ev2 = ev1 @ [if status_code r = 200
                                 then Print (check_mark @ '' API is accessible'')
                                 else Print (warning_sign @ '' API returned status ''
                                             @ show_int (status_code r))]
                in case record_audio w (arg_duration a) (arg_sample_rate a) (arg_channels a) of
                     (ev3, Inl e) \<Rightarrow>
                       (ev2 @ ev3 @
                        [Print (''Recording failed: '' @ error_str e),
                         Print ''Make sure you have a working microphone and the required permissions''],
                        SysExit 1)
                   | (ev3, Inr audio_data) \<Rightarrow>
                       (case convert_to_pcm_bytes audio_data (arg_bit_depth a) of
                          Inl e \<Rightarrow>
                            (ev2 @ ev3 @ [Print (''Audio conversion failed: '' @ error_str e)], SysExit 1)
                        | Inr audio_bytes \<Rightarrow>
                            (let ev4 = ev2 @ ev3 @
                                   [Print (''Audio converted: '' @ show_nat (length audio_bytes) @ '' bytes'')]
                             in case transcribe_audio w audio_bytes (arg_sample_rate a) (arg_channels a)
                                       (arg_bit_depth a) (arg_api_url a) of
                                  (ev5, Inl e) \<Rightarrow> (ev4 @ ev5, Uncaught e)
                                | (ev5, Inr result) \<Rightarrow>
                                    if truthy result then
                                      (case print_result result of
                                         (ev6, out) \<Rightarrow> (ev4 @ ev5 @ ev6, out))
                                    else (ev4 @ ev5 @ [Print ''Transcription failed!''], SysExit 1)))))"


section \<open>The result as the specification types it, and scenarios\<close>

text \<open>
  The specification's \<open>TranscriptionResult\<close> has segments with a start and an end
  (numbers), a confidence (a float) and a text. \<open>encodes_segment j s\<close>: the decoded JSON value \<open>j\<close> is a dictionary
  holding these four entries (and possibly others). \<open>rendered_line\<close> is the line the
  specification asks for, \<open>index. [start-end] (confidence: c) text\<close> with two decimals of
  confidence, behind the two spaces of indentation the script prints.
\<close>

record segment =
  seg_start :: pynum
  seg_end :: pynum
  seg_confidence :: rat
  seg_text :: string






text \<open>A world whose three collaborators give fixed answers, and the script's default arguments.\<close>

definition mock_world :: "http_outcome \<Rightarrow> string + audio_buffer \<Rightarrow> http_outcome \<Rightarrow> world" where
  "mock_world probe recording upload =
     \<lparr>query_devices = ''0 Built-in Microphone'',
      http_get = (\<lambda>u t. probe),
      http_post = (\<lambda>req. upload),
      sd_rec = (\<lambda>frames rate ch. recording)\<rparr>"

definition json_response :: "int \<Rightarrow> json \<Rightarrow> response" where
  "json_response status j = \<lparr>status_code = status, json_body = Inr j, body_text = py_repr j\<rparr>"

definition default_args :: args where
  "default_args =
     \<lparr>arg_duration = PyInt 5, arg_sample_rate = 16000, arg_channels = 1, arg_bit_depth = 16,
      arg_api_url = ''http://127.0.0.1:8080'', arg_list_devices = False\<rparr>"



section \<open>Properties of the encoder\<close>

subsection \<open>Bytes, shapes and the 24-bit loop\<close>

lemma length_le_bytes: "length (le_bytes n v) = n"
  by (induction n arbitrary: v) simp_all

lemma pcm24_loop_raises:
  "ws \<noteq> [] \<Longrightarrow> \<exists>msg. pcm24_loop ws acc = Inl (AttributeError msg)"
  by (cases ws) (simp_all add: int32_to_bytes_def Let_def)

lemma pcm24_loop_returns:
  "pcm24_loop ws acc = Inr bs \<Longrightarrow> ws = [] \<and> bs = acc"
  by (cases ws) (simp_all add: int32_to_bytes_def Let_def)

lemma length_tobytes16: "length (tobytes16 ws) = 2 * length ws"
  by (induction ws) (simp_all add: tobytes16_def length_le_bytes)

lemma length_tobytes32: "length (tobytes32 ws) = 4 * length ws"
  by (induction ws) (simp_all add: tobytes32_def length_le_bytes)

lemma length_flat: "has_shape buf F C \<Longrightarrow> length (flat buf) = F * C"
  by (induction buf arbitrary: F) (auto simp: has_shape_def flat_def)

lemma length_concat_le_bytes:
  "length (concat (map (\<lambda>x. le_bytes n (g x)) xs)) = n * length xs"
  by (induction xs) (simp_all add: length_le_bytes)

text \<open>
  Whenever the encoder returns bytes, there are \<open>bit_depth / 8\<close> of them for every sample
  of the buffer; at 16 and 32 bits it always returns, at 24 bits only for a buffer
  without samples.
\<close>

lemma pcm_bytes_length:
  assumes "has_shape buf F C" and "convert_to_pcm_bytes buf bit_depth = Inr bs"
  shows "length bs = F * C * nat (bit_depth div 8)"
proof -
  have n: "length (flat buf) = F * C"
    using assms(1) by (rule length_flat)
  consider "bit_depth = 16" | "bit_depth = 24" | "bit_depth = 32"
    | "bit_depth \<noteq> 16" "bit_depth \<noteq> 24" "bit_depth \<noteq> 32"
    by blast
  then show ?thesis
  proof cases
    case 1
    with assms(2) n show ?thesis
      by (auto simp: convert_to_pcm_bytes_def length_tobytes16)
  next
    case 2
    from assms(2) 2
    have "pcm24_loop (map (\<lambda>x. astype_int32 (f32_mul_int x 8388607)) (flat buf)) [] = Inr bs"
      by (simp add: convert_to_pcm_bytes_def)
    then have "flat buf = [] \<and> bs = []"
      by (auto dest: pcm24_loop_returns)
    with n show ?thesis
      by simp
  next
    case 3
    with assms(2) n show ?thesis
      by (auto simp: convert_to_pcm_bytes_def length_tobytes32)
  next
    case 4
    with assms(2) show ?thesis
      by (simp add: convert_to_pcm_bytes_def)
  qed
qed

lemma pcm16_pcm32_total:
  "bit_depth = 16 \<or> bit_depth = 32 \<Longrightarrow> \<exists>bs. convert_to_pcm_bytes buf bit_depth = Inr bs"
  by (auto simp: convert_to_pcm_bytes_def)

subsection \<open>Claims\<close>

text \<open>
  C4. For every bit depth other than 16, 24 and 32 the encoder raises \<open>ValueError\<close>
  (Python's invalid-argument exception) and returns no bytes, whatever the buffer.
\<close>

theorem unsupported_bit_depth:
  "bit_depth \<notin> {16, 24, 32} \<Longrightarrow>
     convert_to_pcm_bytes buf bit_depth =
       Inl (ValueError (''Unsupported bit depth: '' @ show_int bit_depth)) \<and>
     (\<forall>bs. convert_to_pcm_bytes buf bit_depth \<noteq> Inr bs)"
  by (simp add: convert_to_pcm_bytes_def)

theorem unsupported_bit_depth_witness:
  "(8::int) \<notin> {16, 24, 32} \<and>
   convert_to_pcm_bytes [[1 / 2]] 8 = Inl (ValueError ''Unsupported bit depth: 8'')"
  using unsupported_bit_depth [of 8 "[[1 / 2]]"]
  by (simp add: show_int_def show_nat.simps digit_char_def)

subsection \<open>From words back to integers\<close>

lemma unat_of_int32:
  "unat (word_of_int t :: 32 word) = nat (t mod 2 ^ 32)"
  by (simp add: unat_eq_nat_uint uint_word_of_int_eq take_bit_eq_mod)

lemma unat_ucast_of_int:
  "unat (ucast (word_of_int t :: 32 word) :: 16 word) = nat (t mod 2 ^ 16)"
proof -
  have "unat (ucast (word_of_int t :: 32 word) :: 16 word) = nat (take_bit 16 (take_bit 32 t))"
    by (simp add: unat_eq_nat_uint uint_word_of_int_eq unsigned_ucast_eq)
  also have "take_bit 16 (take_bit 32 t) = take_bit 16 t"
    by simp
  finally show ?thesis
    by (simp only: take_bit_eq_mod)
qed


lemma astype_int32_in_range:
  "- (2 ^ 31) \<le> trunc q \<Longrightarrow> trunc q < 2 ^ 31 \<Longrightarrow> astype_int32 q = word_of_int (trunc q)"
  by (simp add: astype_int32_def)

lemma pcm16_value:
  assumes "trunc q = t" and "- (2 ^ 31) \<le> t" and "t < 2 ^ 31"
  shows "unat (astype_int16 q) = nat (t mod 2 ^ 16)"
  using assms by (simp only: astype_int16_def astype_int32_in_range unat_ucast_of_int)

lemma pcm32_value:
  assumes "trunc q = t" and "- (2 ^ 31) \<le> t" and "t < 2 ^ 31"
  shows "unat (astype_int32 q) = nat (t mod 2 ^ 32)"
  using assms by (simp only: astype_int32_in_range unat_of_int32)

subsection \<open>The scaled samples used below\<close>

lemma scaled16_one: "trunc (f32_mul_int 1 32767) = 32767"
  by code_simp

lemma scaled16_minus_one: "trunc (f32_mul_int (- 1) 32767) = - 32767"
  by code_simp

lemma scaled24_half: "trunc (f32_mul_int (1 / 2) 8388607) = 4194303"
  by code_simp

lemma scaled24_minus_half: "trunc (f32_mul_int (- 1 / 2) 8388607) = - 4194303"
  by code_simp

subsection \<open>Claims about values\<close>

text \<open>
  C5. The 16-bit encoding of the single sample 1.0 is \<open>FF 7F\<close>, the two little-endian
  bytes of the 16-bit integer 32767, and that of -1.0 is \<open>01 80\<close>, the two bytes of
  -32767 in two's complement: the sample times 32767, converted to a 16-bit integer.
\<close>

theorem pcm16_full_scale:
  "convert_to_pcm_bytes [[1]] 16 = Inr [0xFF, 0x7F] \<and>
   convert_to_pcm_bytes [[- 1]] 16 = Inr [0x01, 0x80] \<and>
   trunc (f32_mul_int 1 32767) = 32767 \<and>
   trunc (f32_mul_int (- 1) 32767) = - 32767 \<and>
   le_bytes 2 (nat (32767 mod 2 ^ 16)) = [0xFF, 0x7F] \<and>
   le_bytes 2 (nat (- 32767 mod 2 ^ 16)) = [0x01, 0x80]"
proof -
  have p: "unat (astype_int16 (f32_mul_int 1 32767)) = 32767"
    using pcm16_value [OF scaled16_one] by simp
  have m: "unat (astype_int16 (f32_mul_int (- 1) 32767)) = 32769"
    using pcm16_value [OF scaled16_minus_one] by simp
  have b1: "le_bytes 2 32767 = [0xFF, 0x7F]"
    by (simp add: numeral_2_eq_2)
  have b2: "le_bytes 2 32769 = [0x01, 0x80]"
    by (simp add: numeral_2_eq_2)
  have c1: "convert_to_pcm_bytes [[1]] 16 = Inr [0xFF, 0x7F]"
    by (simp add: convert_to_pcm_bytes_def flat_def tobytes16_def p b1)
  have c2: "convert_to_pcm_bytes [[- 1]] 16 = Inr [0x01, 0x80]"
    by (simp add: convert_to_pcm_bytes_def flat_def tobytes16_def m b2)
  have l1: "le_bytes 2 (nat (32767 mod 2 ^ 16)) = [0xFF, 0x7F]"
    using b1 by simp
  have l2: "le_bytes 2 (nat (- 32767 mod 2 ^ 16)) = [0x01, 0x80]"
    using b2 by simp
  from c1 c2 scaled16_one scaled16_minus_one l1 l2 show ?thesis
    by blast
qed


text \<open>
  C2. The claim: at every bit depth in 16, 24, 32 the encoder returns
  \<open>F * C * (bit_depth / 8)\<close> bytes for a buffer of \<open>F\<close> frames and \<open>C\<close> channels. At 16
  and 32 bits it does, for every buffer. At 24 bits it does so for a buffer without
  samples only: with at least one sample the first \<open>to_bytes\<close> raises \<open>AttributeError\<close>
  and no bytes are returned.
\<close>

theorem pcm_bytes_length_by_depth:
  "has_shape buf F C \<Longrightarrow>
     (\<exists>bs. convert_to_pcm_bytes buf 16 = Inr bs \<and> length bs = F * C * 2) \<and>
     (\<exists>bs. convert_to_pcm_bytes buf 32 = Inr bs \<and> length bs = F * C * 4) \<and>
     (0 < F * C \<longrightarrow> (\<exists>msg. convert_to_pcm_bytes buf 24 = Inl (AttributeError msg))) \<and>
     (F * C = 0 \<longrightarrow> convert_to_pcm_bytes buf 24 = Inr [])"
proof -
  assume s: "has_shape buf F C"
  then have n: "length (flat buf) = F * C"
    by (rule length_flat)
  have b16: "\<exists>bs. convert_to_pcm_bytes buf 16 = Inr bs \<and> length bs = F * C * 2"
    using n by (simp add: convert_to_pcm_bytes_def length_tobytes16)
  have b32: "\<exists>bs. convert_to_pcm_bytes buf 32 = Inr bs \<and> length bs = F * C * 4"
    using n by (simp add: convert_to_pcm_bytes_def length_tobytes32)
  have b24: "\<exists>msg. convert_to_pcm_bytes buf 24 = Inl (AttributeError msg)" if "0 < F * C"
  proof -
    from that n have "map (\<lambda>x. astype_int32 (f32_mul_int x 8388607)) (flat buf) \<noteq> []"
      by auto
    then show ?thesis
      by (simp add: convert_to_pcm_bytes_def pcm24_loop_raises)
  qed
  have e24: "convert_to_pcm_bytes buf 24 = Inr []" if "F * C = 0"
  proof -
    from that n have "length (flat buf) = 0"
      by (simp only:)
    then have "flat buf = []"
      by simp
    then show ?thesis
      by (simp add: convert_to_pcm_bytes_def)
  qed
  from b16 b32 b24 e24 show ?thesis
    by blast
qed

theorem pcm_bytes_length_by_depth_witness:
  "has_shape [[1 / 2, - 1 / 2], [1 / 4, 0]] 2 2 \<and>
   (\<exists>bs. convert_to_pcm_bytes [[1 / 2, - 1 / 2], [1 / 4, 0]] 16 = Inr bs \<and> length bs = 8) \<and>
   (\<exists>bs. convert_to_pcm_bytes [[1 / 2, - 1 / 2], [1 / 4, 0]] 32 = Inr bs \<and> length bs = 16) \<and>
   (\<exists>msg. convert_to_pcm_bytes [[1 / 2, - 1 / 2], [1 / 4, 0]] 24 = Inl (AttributeError msg))"
proof -
  have s: "has_shape [[1 / 2, - 1 / 2], [1 / 4, 0]] 2 2"
    by (simp add: has_shape_def)
  from s pcm_bytes_length_by_depth [OF s] show ?thesis
    by simp
qed

text \<open>
  C1. The claim: at 24 bits every sample is scaled, masked and emitted as three
  little-endian bytes, also a negative one. The encoder emits nothing: for the claim's
  own samples 0.5 and -0.5 the scaled integers are 4194303 and -4194303 as claimed, but
  the call of \<open>to_bytes\<close> on the masked NumPy scalar raises \<open>AttributeError\<close>.
\<close>

theorem pcm24_raises_attribute_error:
  "(\<exists>msg. convert_to_pcm_bytes [[1 / 2]] 24 = Inl (AttributeError msg)) \<and>
   (\<exists>msg. convert_to_pcm_bytes [[- 1 / 2]] 24 = Inl (AttributeError msg)) \<and>
   trunc (f32_mul_int (1 / 2) 8388607) = 4194303 \<and>
   trunc (f32_mul_int (- 1 / 2) 8388607) = - 4194303"
proof -
  have a: "\<exists>msg. convert_to_pcm_bytes [[x]] 24 = Inl (AttributeError msg)" for x
    by (simp add: convert_to_pcm_bytes_def flat_def int32_to_bytes_def)
  from a [of "1 / 2"] a [of "- 1 / 2"] scaled24_half scaled24_minus_half show ?thesis
    by blast
qed

section \<open>Properties of the client and the driver\<close>












subsection \<open>Shapes of a run\<close>

lemma convert16_one: "convert_to_pcm_bytes [[1]] 16 = Inr [0xFF, 0x7F]"
proof -
  have p: "unat (astype_int16 (f32_mul_int 1 32767)) = 32767"
    using pcm16_value [OF scaled16_one] by simp
  have b: "le_bytes 2 32767 = [0xFF, 0x7F]"
    by (simp add: numeral_2_eq_2)
  show ?thesis
    by (simp add: convert_to_pcm_bytes_def flat_def tobytes16_def p b)
qed

lemma record_audio_events:
  "\<exists>tl. fst (record_audio w d sr ch) =
     [Print (''Recording for '' @ num_str d @ '' seconds...''), Print ''Speak now!'',
      SdRec (frame_count d sr) sr ch] @ tl"
  by (simp add: record_audio_def Let_def split: sum.splits)

lemma transcribe_audio_cases:
  obtains ev res where "transcribe_audio w audio_bytes sr ch bd u = (ev, Inr res)"
  | ev e where "transcribe_audio w audio_bytes sr ch bd u = (ev, Inl e)"
  by (cases "transcribe_audio w audio_bytes sr ch bd u") (metis sum.exhaust_sel prod.collapse sumE)

text \<open>After a probe that got a response, whatever its status, the run goes on to record.\<close>

lemma main_after_probe:
  assumes "\<not> arg_list_devices a"
    and "http_get w (arg_api_url a @ ''/'') 5 = Responded r"
  shows "\<exists>rest out. main w a =
     ([Print (''Testing API connection to '' @ (arg_api_url a @ ''/'') @ ''...''),
       HttpGet (arg_api_url a @ ''/'') 5,
       (if status_code r = 200 then Print (check_mark @ '' API is accessible'')
        else Print (warning_sign @ '' API returned status '' @ show_int (status_code r)))]
      @ fst (record_audio w (arg_duration a) (arg_sample_rate a) (arg_channels a)) @ rest, out)"
proof (cases "record_audio w (arg_duration a) (arg_sample_rate a) (arg_channels a)")
  case (Pair ev3 rec)
  show ?thesis
  proof (cases rec)
    case (Inl e)
    with Pair assms show ?thesis
      by (simp add: main_def Let_def)
  next
    case (Inr audio_data)
    note rec = this
    show ?thesis
    proof (cases "convert_to_pcm_bytes audio_data (arg_bit_depth a)")
      case (Inl e)
      with Pair rec assms show ?thesis
        by (simp add: main_def Let_def)
    next
      case (Inr audio_bytes)
      note conv = this
      show ?thesis
      proof (cases rule: transcribe_audio_cases [of w audio_bytes "arg_sample_rate a"
            "arg_channels a" "arg_bit_depth a" "arg_api_url a"])
        case (1 ev5 res)
        obtain ev6 out where p: "print_result res = (ev6, out)"
          by (cases "print_result res")
        from Pair rec conv 1 p assms show ?thesis
          by (simp add: main_def Let_def)
      next
        case (2 ev5 e)
        from Pair rec conv 2 assms show ?thesis
          by (simp add: main_def Let_def)
      qed
    qed
  qed
qed

text \<open>
  When the probe got a response, the recording and the encoding succeeded, the end of the
  run is decided by the truth value of what \<open>transcribe_audio\<close> returned.
\<close>

lemma main_after_upload:
  assumes "\<not> arg_list_devices a"
    and "http_get w (arg_api_url a @ ''/'') 5 = Responded p"
    and "snd (record_audio w (arg_duration a) (arg_sample_rate a) (arg_channels a)) = Inr audio_data"
    and "convert_to_pcm_bytes audio_data (arg_bit_depth a) = Inr audio_bytes"
    and "snd (transcribe_audio w audio_bytes (arg_sample_rate a) (arg_channels a)
           (arg_bit_depth a) (arg_api_url a)) = Inr result"
  shows "\<exists>pre. main w a =
     (if truthy result then (pre @ fst (print_result result), snd (print_result result))
      else (pre @ [Print ''Transcription failed!''], SysExit 1))"
proof -
  obtain ev3 where r: "record_audio w (arg_duration a) (arg_sample_rate a) (arg_channels a) = (ev3, Inr audio_data)"
    using assms(3) by (cases "record_audio w (arg_duration a) (arg_sample_rate a) (arg_channels a)") simp
  obtain ev5 where t: "transcribe_audio w audio_bytes (arg_sample_rate a) (arg_channels a)
          (arg_bit_depth a) (arg_api_url a) = (ev5, Inr result)"
    using assms(5) by (cases "transcribe_audio w audio_bytes (arg_sample_rate a) (arg_channels a)
          (arg_bit_depth a) (arg_api_url a)") simp
  obtain ev6 out where p: "print_result result = (ev6, out)"
    by (cases "print_result result")
  from assms(1,2,4) r t p show ?thesis
    by (simp add: main_def Let_def)
qed

subsection \<open>Claims about the client and the driver\<close>

text \<open>
  C8. With the flag \<open>list_devices\<close> the run prints the heading and the device list and
  returns, exit code 0, whatever the world: no HTTP request, no recording, and so no
  encoding and no upload.
\<close>

theorem list_devices_only:
  "arg_list_devices a \<Longrightarrow>
     main w a = ([Print ''Available audio devices:'', QueryDevices, Print (query_devices w)], Returned) \<and>
     exit_code (snd (main w a)) = 0 \<and>
     list_all (\<lambda>e. case e of HttpGet u t \<Rightarrow> False | HttpPost req \<Rightarrow> False
                      | SdRec f r c \<Rightarrow> False | _ \<Rightarrow> True) (fst (main w a))"
  by (simp add: main_def)

theorem list_devices_only_witness:
  "arg_list_devices (default_args\<lparr>arg_list_devices := True\<rparr>) \<and>
   main (mock_world (Failed ''connection refused'') (Inl ''no input device'') (Failed ''connection refused''))
        (default_args\<lparr>arg_list_devices := True\<rparr>) =
     ([Print ''Available audio devices:'', QueryDevices, Print ''0 Built-in Microphone''], Returned)"
  using list_devices_only [of "default_args\<lparr>arg_list_devices := True\<rparr>"
      "mock_world (Failed ''connection refused'') (Inl ''no input device'') (Failed ''connection refused'')"]
  by (simp add: default_args_def mock_world_def)

text \<open>
  C10. When the upload is answered with status 200 and the body \<open>{}\<close>,
  \<open>transcribe_audio\<close> returns that empty dictionary, which is not \<open>None\<close>; \<open>main\<close> tests
  its truth value, prints \<open>Transcription failed!\<close> and exits with code 1.
\<close>

theorem empty_object_counts_as_failure:
  "\<not> arg_list_devices a \<Longrightarrow>
   http_get w (arg_api_url a @ ''/'') 5 = Responded p \<Longrightarrow>
   snd (record_audio w (arg_duration a) (arg_sample_rate a) (arg_channels a)) = Inr audio_data \<Longrightarrow>
   convert_to_pcm_bytes audio_data (arg_bit_depth a) = Inr audio_bytes \<Longrightarrow>
   http_post w (upload_request audio_bytes (arg_sample_rate a) (arg_channels a) (arg_bit_depth a)
                  (arg_api_url a)) = Responded r \<Longrightarrow>
   status_code r = 200 \<Longrightarrow>
   json_body r = Inr (JObj []) \<Longrightarrow>
     snd (transcribe_audio w audio_bytes (arg_sample_rate a) (arg_channels a) (arg_bit_depth a)
            (arg_api_url a)) = Inr (JObj []) \<and>
     JObj [] \<noteq> JNull \<and>
     (\<exists>pre. main w a = (pre @ [Print ''Transcription failed!''], SysExit 1)) \<and>
     exit_code (snd (main w a)) = 1"
proof -
  assume a: "\<not> arg_list_devices a"
    and g: "http_get w (arg_api_url a @ ''/'') 5 = Responded p"
    and rec: "snd (record_audio w (arg_duration a) (arg_sample_rate a) (arg_channels a)) = Inr audio_data"
    and conv: "convert_to_pcm_bytes audio_data (arg_bit_depth a) = Inr audio_bytes"
    and post: "http_post w (upload_request audio_bytes (arg_sample_rate a) (arg_channels a)
                  (arg_bit_depth a) (arg_api_url a)) = Responded r"
    and st: "status_code r = 200"
    and body: "json_body r = Inr (JObj [])"
  have t: "snd (transcribe_audio w audio_bytes (arg_sample_rate a) (arg_channels a) (arg_bit_depth a)
            (arg_api_url a)) = Inr (JObj [])"
    using post st body by (simp add: transcribe_audio_def transcribe_try_def Let_def)
  from main_after_upload [OF a g rec conv t]
  obtain pre where m: "main w a = (pre @ [Print ''Transcription failed!''], SysExit 1)"
    by auto
  from t m show ?thesis
    by auto
qed

theorem empty_object_counts_as_failure_witness:
  "\<not> arg_list_devices default_args \<and>
   snd (transcribe_audio
          (mock_world (Responded (json_response 200 JNull)) (Inr [[1]]) (Responded (json_response 200 (JObj []))))
          [0xFF, 0x7F] 16000 1 16 ''http://127.0.0.1:8080'') = Inr (JObj []) \<and>
   (\<exists>pre. main (mock_world (Responded (json_response 200 JNull)) (Inr [[1]])
                   (Responded (json_response 200 (JObj [])))) default_args =
            (pre @ [Print ''Transcription failed!''], SysExit 1)) \<and>
   exit_code (snd (main (mock_world (Responded (json_response 200 JNull)) (Inr [[1]])
                   (Responded (json_response 200 (JObj [])))) default_args)) = 1"
  using empty_object_counts_as_failure [of default_args
      "mock_world (Responded (json_response 200 JNull)) (Inr [[1]]) (Responded (json_response 200 (JObj [])))"
      "json_response 200 JNull" "[[1]]" "[0xFF, 0x7F]" "json_response 200 (JObj [])"]
  by (simp add: default_args_def mock_world_def json_response_def record_audio_def Let_def
      convert16_one)

text \<open>
  C6. The probe is a GET of \<open>api_url/\<close> with a timeout of 5 seconds. A response whose
  status is not 2xx is reported with the warning line and the run goes on to the
  recording (the announcement, then the call of the audio library). A transport error
  prints the error and the hint about the server, and the process exits with code 1.
\<close>

theorem probe_outcomes:
  "\<not> arg_list_devices a \<Longrightarrow>
     (\<forall>r. http_get w (arg_api_url a @ ''/'') 5 = Responded r \<and>
          \<not> (200 \<le> status_code r \<and> status_code r < 300) \<longrightarrow>
        (\<exists>rest out. main w a =
           ([Print (''Testing API connection to '' @ (arg_api_url a @ ''/'') @ ''...''),
             HttpGet (arg_api_url a @ ''/'') 5,
             Print (warning_sign @ '' API returned status '' @ show_int (status_code r)),
             Print (''Recording for '' @ num_str (arg_duration a) @ '' seconds...''),
             Print ''Speak now!'',
             SdRec (frame_count (arg_duration a) (arg_sample_rate a)) (arg_sample_rate a)
                   (arg_channels a)] @ rest, out))) \<and>
     (\<forall>msg. http_get w (arg_api_url a @ ''/'') 5 = Failed msg \<longrightarrow>
        main w a =
          ([Print (''Testing API connection to '' @ (arg_api_url a @ ''/'') @ ''...''),
            HttpGet (arg_api_url a @ ''/'') 5,
            Print (ballot_x @ '' Cannot connect to API: '' @ msg),
            Print ''Make sure the Rust server is running on the specified URL''], SysExit 1) \<and>
        exit_code (snd (main w a)) = 1)"
proof -
  assume a: "\<not> arg_list_devices a"
  have warn: "\<exists>rest out. main w a =
           ([Print (''Testing API connection to '' @ (arg_api_url a @ ''/'') @ ''...''),
             HttpGet (arg_api_url a @ ''/'') 5,
             Print (warning_sign @ '' API returned status '' @ show_int (status_code r)),
             Print (''Recording for '' @ num_str (arg_duration a) @ '' seconds...''),
             Print ''Speak now!'',
             SdRec (frame_count (arg_duration a) (arg_sample_rate a)) (arg_sample_rate a)
                   (arg_channels a)] @ rest, out)"
    if g: "http_get w (arg_api_url a @ ''/'') 5 = Responded r"
      and s: "\<not> (200 \<le> status_code r \<and> status_code r < 300)" for r
  proof -
    from s have ne: "status_code r \<noteq> 200"
      by auto
    from main_after_probe [OF a g] obtain rest out where
      m: "main w a =
     ([Print (''Testing API connection to '' @ (arg_api_url a @ ''/'') @ ''...''),
       HttpGet (arg_api_url a @ ''/'') 5,
       (if status_code r = 200 then Print (check_mark @ '' API is accessible'')
        else Print (warning_sign @ '' API returned status '' @ show_int (status_code r)))]
      @ fst (record_audio w (arg_duration a) (arg_sample_rate a) (arg_channels a)) @ rest, out)"
      by blast
    from record_audio_events [of w "arg_duration a" "arg_sample_rate a" "arg_channels a"]
    obtain tl where
      e: "fst (record_audio w (arg_duration a) (arg_sample_rate a) (arg_channels a)) =
     [Print (''Recording for '' @ num_str (arg_duration a) @ '' seconds...''), Print ''Speak now!'',
      SdRec (frame_count (arg_duration a) (arg_sample_rate a)) (arg_sample_rate a) (arg_channels a)] @ tl"
      by blast
    from m ne show ?thesis
      unfolding e by (intro exI [of _ "tl @ rest"] exI [of _ out]) simp
  qed
  have down: "main w a =
          ([Print (''Testing API connection to '' @ (arg_api_url a @ ''/'') @ ''...''),
            HttpGet (arg_api_url a @ ''/'') 5,
            Print (ballot_x @ '' Cannot connect to API: '' @ msg),
            Print ''Make sure the Rust server is running on the specified URL''], SysExit 1) \<and>
        exit_code (snd (main w a)) = 1"
    if "http_get w (arg_api_url a @ ''/'') 5 = Failed msg" for msg
    using a that by (simp add: main_def Let_def)
  from warn down show ?thesis
    by blast
qed

theorem probe_outcomes_witness:
  "\<not> arg_list_devices default_args \<and>
   (\<exists>rest out.
      main (mock_world (Responded (json_response 503 JNull)) (Inl ''no input device'') (Failed ''down''))
           default_args =
        ([Print ''Testing API connection to http://127.0.0.1:8080/...'',
          HttpGet ''http://127.0.0.1:8080/'' 5,
          Print (warning_sign @ '' API returned status 503''),
          Print ''Recording for 5 seconds...'',
          Print ''Speak now!'',
          SdRec 80000 16000 1] @ rest, out)) \<and>
   main (mock_world (Failed ''Connection refused'') (Inl ''no input device'') (Failed ''down''))
        default_args =
     ([Print ''Testing API connection to http://127.0.0.1:8080/...'',
       HttpGet ''http://127.0.0.1:8080/'' 5,
       Print (ballot_x @ '' Cannot connect to API: Connection refused''),
       Print ''Make sure the Rust server is running on the specified URL''], SysExit 1)"
proof -
  have n: "show_int 503 = ''503''" "num_str (PyInt 5) = ''5''" "frame_count (PyInt 5) 16000 = 80000"
    by (simp_all add: show_int_def num_str_def frame_count_def show_nat.simps digit_char_def)
  have d: "\<not> arg_list_devices default_args"
    by (simp add: default_args_def)
  from probe_outcomes [OF d,
      of "mock_world (Responded (json_response 503 JNull)) (Inl ''no input device'') (Failed ''down'')"]
    probe_outcomes [OF d,
      of "mock_world (Failed ''Connection refused'') (Inl ''no input device'') (Failed ''down'')"]
    d n
  show ?thesis
    by (simp add: default_args_def mock_world_def json_response_def)
qed




subsection \<open>The end-to-end scenario\<close>










end
